theory Spec2Isabelle
  imports Main "HOL-Library.Sublist" "HOL-Library.AList"
begin

section \<open>JavaScript strings\<close>

text \<open>
  A JavaScript string is a sequence of UTF-16 code units. The model keeps the code units
  below 256 (Isabelle's \<open>char\<close>, read as Latin-1), which covers the text the \<open>p4\<close>
  client prints and every literal of \<open>server.js\<close> that the handlers put into a
  command or an envelope.
\<close>

definition dq :: string where
  "dq = [CHR 0x22]"

definition nl :: char where
  "nl = CHR 0x0A"

text \<open>
  \<open>String.prototype.trim\<close> removes white space and line terminators from both ends.
  Below 256 these are TAB, LF, VT, FF, CR, SP and NBSP.
\<close>

definition is_space :: "char \<Rightarrow> bool" where
  "is_space c \<longleftrightarrow> (of_char c :: nat) \<in> {9, 10, 11, 12, 13, 32, 160}"

definition trim :: "string \<Rightarrow> string" where
  "trim s = rev (dropWhile is_space (rev (dropWhile is_space s)))"

text \<open>
  \<open>String.prototype.split(sep)\<close> with a non-empty separator: the pieces between the
  occurrences of \<open>sep\<close>, scanned from the left; a text without the separator is one
  piece, and so is the empty text. (With the empty separator JavaScript splits into code
  units.)
\<close>

function split_from :: "string \<Rightarrow> string \<Rightarrow> string \<Rightarrow> string list" where
  "split_from sep acc [] = [rev acc]"
| "split_from sep acc (c # cs) =
     (if sep \<noteq> [] \<and> prefix sep (c # cs)
      then rev acc # split_from sep [] (drop (length sep) (c # cs))
      else split_from sep (c # acc) cs)"
  by pat_completeness auto
termination
  by (relation "measure (\<lambda>(sep, acc, s). length s)") auto

definition split_str :: "string \<Rightarrow> string \<Rightarrow> string list" where
  "split_str s sep = (if sep = [] then map (\<lambda>c. [c]) s else split_from sep [] s)"

text \<open>\<open>Array.prototype.join(sep)\<close> on an array of strings.\<close>

fun join_str :: "string list \<Rightarrow> string \<Rightarrow> string" where
  "join_str [] sep = []"
| "join_str [x] sep = x"
| "join_str (x # y # ys) sep = x @ sep @ join_str (y # ys) sep"




text \<open>Decimal digits: \<open>String(n)\<close> for an integer, and \<open>parseInt\<close> on a digit string.\<close>

definition is_digit :: "char \<Rightarrow> bool" where
  "is_digit c \<longleftrightarrow> 48 \<le> (of_char c :: nat) \<and> (of_char c :: nat) \<le> 57"

definition digit_char :: "nat \<Rightarrow> char" where
  "digit_char d = ''0123456789'' ! d"

fun show_nat :: "nat \<Rightarrow> string" where
  "show_nat n = (if n < 10 then [digit_char n] else show_nat (n div 10) @ [digit_char (n mod 10)])"

declare show_nat.simps [simp del]

definition show_int :: "int \<Rightarrow> string" where
  "show_int i = (if i < 0 then CHR ''-'' # show_nat (nat (- i)) else show_nat (nat i))"

definition digit_val :: "char \<Rightarrow> nat" where
  "digit_val c = (of_char c :: nat) - 48"

definition parse_digits :: "string \<Rightarrow> nat" where
  "parse_digits ds = foldl (\<lambda>acc c. 10 * acc + digit_val c) 0 ds"

section \<open>The command executor\<close>

text \<open>
  \<open>executeP4Command\<close> of \<open>nodejs-api/server.js\<close>. The child process is the
  environment: \<open>execAsync\<close> either resolves with the two output streams or rejects with
  an error whose \<open>message\<close> is a string (non-zero exit, timeout, spawn failure, or a
  synchronous throw of \<open>exec\<close> itself, all inside the \<open>try\<close>). A backend answers a
  full command line, a working directory and a timeout. Log lines do not influence the
  result and are left out; the list of spawned command lines is kept.
\<close>

datatype exec_outcome = Resolved (stdout: string) (stderr: string) | Rejected (message: string)

type_synonym backend = "string \<Rightarrow> string \<Rightarrow> nat \<Rightarrow> exec_outcome"

record exec_options =
  cwd :: "string option"
  timeout :: "nat option"

definition no_options :: exec_options where
  "no_options = \<lparr>cwd = None, timeout = None\<rparr>"

record CommandResult =
  result_success :: bool
  result_output :: "string option"
  result_error :: "string option"

definition effective_cwd :: "exec_options \<Rightarrow> string" where
  "effective_cwd options = (case cwd options of Some d \<Rightarrow> if d \<noteq> [] then d else ''/workspace'' | None \<Rightarrow> ''/workspace'')"

definition effective_timeout :: "exec_options \<Rightarrow> nat" where
  "effective_timeout options = (case timeout options of Some t \<Rightarrow> if t \<noteq> 0 then t else 30000 | None \<Rightarrow> 30000)"

definition fullCommand :: "string \<Rightarrow> string" where
  "fullCommand command = ''p4 '' @ command"

text \<open>
  The result is a pair: the command lines handed to \<open>exec\<close>, and either the
  \<open>message\<close> of an error thrown out of the function (\<open>Inl\<close>) or the returned object
  (\<open>Inr\<close>).
\<close>

definition executeP4Command :: "backend \<Rightarrow> string \<Rightarrow> exec_options \<Rightarrow> string list \<times> (string + CommandResult)" where
  "executeP4Command p4 command options =
     ([fullCommand command],
      (case p4 (fullCommand command) (effective_cwd options) (effective_timeout options) of
         Resolved out err \<Rightarrow> Inr \<lparr>result_success = True, result_output = Some (trim out), result_error = None\<rparr>
       | Rejected msg \<Rightarrow> Inr \<lparr>result_success = False, result_output = None, result_error = Some msg\<rparr>))"

section \<open>Values, requests and responses\<close>

text \<open>
  What a request parameter can hold: a query or route parameter is a string or absent, a
  field of a JSON body is a scalar or absent. (Arrays and objects as parameter values,
  and numbers that are not integers, are outside the model.)
\<close>

datatype jsval = VUndefined | VNull | VBool bool | VNum int | VStr string

datatype json = JNull | JBool bool | JNum int | JStr string | JArr "json list" | JObj "(string \<times> json) list"

text \<open>Truthiness, \<open>a || b\<close>, and the conversion a template literal applies.\<close>

fun truthy :: "jsval \<Rightarrow> bool" where
  "truthy VUndefined = False"
| "truthy VNull = False"
| "truthy (VBool b) = b"
| "truthy (VNum n) = (n \<noteq> 0)"
| "truthy (VStr s) = (s \<noteq> [])"

definition or_else :: "jsval \<Rightarrow> jsval \<Rightarrow> jsval" where
  "or_else a b = (if truthy a then a else b)"

fun to_string :: "jsval \<Rightarrow> string" where
  "to_string VUndefined = ''undefined''"
| "to_string VNull = ''null''"
| "to_string (VBool b) = (if b then ''true'' else ''false'')"
| "to_string (VNum n) = show_int n"
| "to_string (VStr s) = s"

text \<open>
  \<open>res.json\<close> serialises with \<open>JSON.stringify\<close>: a property whose value is
  \<open>undefined\<close> is dropped, \<open>null\<close> stays.
\<close>

fun json_of :: "jsval \<Rightarrow> json option" where
  "json_of VUndefined = None"
| "json_of VNull = Some JNull"
| "json_of (VBool b) = Some (JBool b)"
| "json_of (VNum n) = Some (JNum n)"
| "json_of (VStr s) = Some (JStr s)"

definition props :: "(string \<times> json option) list \<Rightarrow> json" where
  "props kvs = JObj (List.map_filter (\<lambda>(k, v). map_option (Pair k) v) kvs)"

definition json_str :: "string option \<Rightarrow> json" where
  "json_str s = (case s of None \<Rightarrow> JNull | Some t \<Rightarrow> JStr t)"

definition jfield :: "string \<Rightarrow> json \<Rightarrow> json option" where
  "jfield k j = (case j of JObj kvs \<Rightarrow> map_of kvs k | _ \<Rightarrow> None)"

datatype route =
  Health | Info | Files | FileContent | FileHistory | Changes | ChangeDetail | Users | Sync
  | Docs | Unmatched

record request =
  req_route :: route
  req_query :: "string \<rightharpoonup> string"
  req_params :: "string \<rightharpoonup> string"
  req_body :: "string \<rightharpoonup> jsval"

record response =
  res_status :: nat
  res_json :: json

definition query_of :: "request \<Rightarrow> string \<Rightarrow> jsval" where
  "query_of req k = (case req_query req k of None \<Rightarrow> VUndefined | Some s \<Rightarrow> VStr s)"

definition param_of :: "request \<Rightarrow> string \<Rightarrow> jsval" where
  "param_of req k = (case req_params req k of None \<Rightarrow> VUndefined | Some s \<Rightarrow> VStr s)"

definition body_of :: "request \<Rightarrow> string \<Rightarrow> jsval" where
  "body_of req k = (case req_body req k of None \<Rightarrow> VUndefined | Some v \<Rightarrow> v)"

section \<open>Validation\<close>

text \<open>
  The chains that \<open>server.js\<close> declares with \<open>express-validator\<close>, and the library's
  behaviour on the values above: \<open>optional()\<close> skips a field that is \<open>undefined\<close>
  and nothing else; every validator of a chain runs (no \<open>bail()\<close> is declared) and
  each failing one records an error; \<open>withMessage\<close> names the message of the validator
  before it, the others keep \<open>Invalid value\<close>. The validators of \<open>validator.js\<close> see
  the value converted by the library's \<open>toString\<close>.
\<close>

datatype location = InQuery | InParams | InBody

datatype validator = IsString | IsInt "int option" "int option" | IsIn "string list" | IsBoolean | NotEmpty

record chain =
  chain_location :: location
  chain_field :: string
  chain_optional :: bool
  chain_validators :: "(validator \<times> string) list"

record validation_error =
  err_value :: jsval
  err_msg :: string
  err_path :: string
  err_location :: location

definition field_chain :: "location \<Rightarrow> string \<Rightarrow> chain" where
  "field_chain l f = \<lparr>chain_location = l, chain_field = f, chain_optional = False, chain_validators = []\<rparr>"

definition optional :: "chain \<Rightarrow> chain" where
  "optional c = c\<lparr>chain_optional := True\<rparr>"

definition add_validator :: "validator \<Rightarrow> chain \<Rightarrow> chain" where
  "add_validator v c = c\<lparr>chain_validators := chain_validators c @ [(v, ''Invalid value'')]\<rparr>"

definition withMessage :: "string \<Rightarrow> chain \<Rightarrow> chain" where
  "withMessage m c =
     (case rev (chain_validators c) of
        [] \<Rightarrow> c
      | (v, _) # before \<Rightarrow> c\<lparr>chain_validators := rev ((v, m) # before)\<rparr>)"

fun toString :: "jsval \<Rightarrow> string" where
  "toString VUndefined = []"
| "toString VNull = []"
| "toString v = to_string v"

text \<open>\<open>isInt\<close> tests \<open>/^[-+]?[0-9]+$/\<close> and compares the number read with the bounds.\<close>

definition unsigned_part :: "string \<Rightarrow> string" where
  "unsigned_part s = (case s of [] \<Rightarrow> [] | c # r \<Rightarrow> if c = CHR ''-'' \<or> c = CHR ''+'' then r else s)"

definition is_int_string :: "string \<Rightarrow> bool" where
  "is_int_string s \<longleftrightarrow> unsigned_part s \<noteq> [] \<and> list_all is_digit (unsigned_part s)"

definition int_of_string :: "string \<Rightarrow> int" where
  "int_of_string s =
     (case s of
        [] \<Rightarrow> 0
      | c # r \<Rightarrow> if c = CHR ''-'' then - int (parse_digits r) else int (parse_digits (unsigned_part s)))"

fun passes :: "validator \<Rightarrow> jsval \<Rightarrow> bool" where
  "passes IsString v = (case v of VStr _ \<Rightarrow> True | _ \<Rightarrow> False)"
| "passes (IsInt lo hi) v =
     (is_int_string (toString v)
      \<and> (case lo of None \<Rightarrow> True | Some l \<Rightarrow> l \<le> int_of_string (toString v))
      \<and> (case hi of None \<Rightarrow> True | Some h \<Rightarrow> int_of_string (toString v) \<le> h))"
| "passes (IsIn allowed) v = (toString v \<in> set allowed)"
| "passes IsBoolean v = (toString v \<in> set [''true'', ''false'', ''1'', ''0''])"
| "passes NotEmpty v = (toString v \<noteq> [])"

definition field_value :: "request \<Rightarrow> location \<Rightarrow> string \<Rightarrow> jsval" where
  "field_value req l f = (case l of InQuery \<Rightarrow> query_of req f | InParams \<Rightarrow> param_of req f | InBody \<Rightarrow> body_of req f)"

definition run_chain :: "request \<Rightarrow> chain \<Rightarrow> validation_error list" where
  "run_chain req c =
     (let v = field_value req (chain_location c) (chain_field c)
      in if chain_optional c \<and> v = VUndefined then []
         else map (\<lambda>(vd, m). \<lparr>err_value = v, err_msg = m, err_path = chain_field c, err_location = chain_location c\<rparr>)
                (filter (\<lambda>(vd, m). \<not> passes vd v) (chain_validators c)))"

definition validationResult :: "chain list \<Rightarrow> request \<Rightarrow> validation_error list" where
  "validationResult cs req = concat (map (run_chain req) cs)"

definition location_name :: "location \<Rightarrow> string" where
  "location_name l = (case l of InQuery \<Rightarrow> ''query'' | InParams \<Rightarrow> ''params'' | InBody \<Rightarrow> ''body'')"

text \<open>An entry of \<open>errors.array()\<close>, with the property names of express-validator 7.\<close>

definition error_json :: "validation_error \<Rightarrow> json" where
  "error_json e =
     props [(''type'', Some (JStr ''field'')), (''value'', json_of (err_value e)),
            (''msg'', Some (JStr (err_msg e))), (''path'', Some (JStr (err_path e))),
            (''location'', Some (JStr (location_name (err_location e))))]"

definition files_chains :: "chain list" where
  "files_chains =
     [withMessage ''Path must be a string'' (add_validator IsString (optional (field_chain InQuery ''path''))),
      withMessage ''Max must be between 1 and 1000''
        (add_validator (IsInt (Some 1) (Some 1000)) (optional (field_chain InQuery ''max'')))]"

definition content_chains :: "chain list" where
  "content_chains =
     [withMessage ''Path is required and must be a string''
        (add_validator IsString (add_validator NotEmpty (field_chain InQuery ''path''))),
      withMessage ''Revision must be a number''
        (add_validator (IsInt None None) (optional (field_chain InQuery ''revision'')))]"

definition history_chains :: "chain list" where
  "history_chains =
     [withMessage ''Path is required and must be a string''
        (add_validator IsString (add_validator NotEmpty (field_chain InQuery ''path''))),
      withMessage ''Max must be between 1 and 100''
        (add_validator (IsInt (Some 1) (Some 100)) (optional (field_chain InQuery ''max'')))]"

definition changes_chains :: "chain list" where
  "changes_chains =
     [withMessage ''Max must be between 1 and 100''
        (add_validator (IsInt (Some 1) (Some 100)) (optional (field_chain InQuery ''max''))),
      withMessage ''Status must be pending or submitted''
        (add_validator (IsIn [''pending'', ''submitted'']) (optional (field_chain InQuery ''status''))),
      withMessage ''User must be a string'' (add_validator IsString (optional (field_chain InQuery ''user'')))]"

definition change_chains :: "chain list" where
  "change_chains =
     [withMessage ''Change ID must be a number'' (add_validator (IsInt None None) (field_chain InParams ''changeId''))]"

definition sync_chains :: "chain list" where
  "sync_chains =
     [withMessage ''Path must be a string'' (add_validator IsString (optional (field_chain InBody ''path''))),
      withMessage ''Force must be a boolean'' (add_validator IsBoolean (optional (field_chain InBody ''force'')))]"

definition chains_of :: "route \<Rightarrow> chain list" where
  "chains_of r =
     (case r of
        Files \<Rightarrow> files_chains | FileContent \<Rightarrow> content_chains | FileHistory \<Rightarrow> history_chains
      | Changes \<Rightarrow> changes_chains | ChangeDetail \<Rightarrow> change_chains | Sync \<Rightarrow> sync_chains
      | _ \<Rightarrow> [])"

text \<open>
  \<open>handleValidationErrors\<close>: with a non-empty result the middleware answers itself and
  the handler behind it (\<open>next\<close>) does not run.
\<close>

definition handleValidationErrors :: "chain list \<Rightarrow> request \<Rightarrow> response \<times> string list \<Rightarrow> response \<times> string list" where
  "handleValidationErrors cs req next =
     (let errors = validationResult cs req
      in if errors \<noteq> []
         then (\<lparr>res_status = 400,
                res_json = JObj [(''success'', JBool False), (''message'', JStr ''Validation errors''),
                                 (''errors'', JArr (map error_json errors))]\<rparr>, [])
         else next)"

section \<open>The endpoint handlers\<close>

text \<open>
  Each handler returns its response and the command lines it spawned. The \<open>catch\<close>
  block that closes every handler is \<open>internal_server_error\<close>, applied to the message of
  what was thrown. On Node's V8, calling \<open>split\<close> on \<open>null\<close> throws a \<open>TypeError\<close>
  with the message \<open>null_split_message\<close>.
\<close>

definition internal_server_error :: "string \<Rightarrow> response" where
  "internal_server_error msg =
     \<lparr>res_status = 500,
      res_json = JObj [(''success'', JBool False), (''message'', JStr ''Internal server error''),
                       (''error'', JStr msg)]\<rparr>"

definition null_split_message :: string where
  "null_split_message = ''Cannot read properties of null (reading '' @ [CHR 0x27] @ ''split'' @ [CHR 0x27] @ '')''"

text \<open>\<open>output.split('\n').filter(line => line.trim()).length\<close>\<close>

definition count_lines :: "string \<Rightarrow> nat" where
  "count_lines out = length (filter (\<lambda>line. trim line \<noteq> []) (split_str out [nl]))"

definition get_health :: "backend \<Rightarrow> string \<Rightarrow> response \<times> string list" where
  "get_health p4 now =
     (case executeP4Command p4 ''info'' no_options of
        (spawned, Inr result) \<Rightarrow>
          (\<lparr>res_status = 200,
            res_json = JObj [(''status'', JStr ''healthy''), (''timestamp'', JStr now),
                             (''perforce'', JStr (if result_success result then ''connected'' else ''disconnected'')),
                             (''version'', JStr ''1.0.0'')]\<rparr>, spawned)
      | (spawned, Inl msg) \<Rightarrow>
          (\<lparr>res_status = 503,
            res_json = JObj [(''status'', JStr ''unhealthy''), (''timestamp'', JStr now),
                             (''error'', JStr msg)]\<rparr>, spawned))"

text \<open>
  The \<open>key: value\<close> lines of \<open>p4 info\<close>. An assignment to an existing property keeps
  its place; one to \<open>__proto__\<close> with a string adds no property. (The order in which
  JavaScript lists integer-like keys is not modelled; a JSON object is unordered.)
\<close>

definition parse_info :: "string \<Rightarrow> (string \<times> string) list" where
  "parse_info out =
     foldl (\<lambda>info line.
              case split_str line '': '' of
                [] \<Rightarrow> info
              | key # valueParts \<Rightarrow>
                  if valueParts \<noteq> [] \<and> trim key \<noteq> ''__proto__''
                  then AList.update (trim key) (trim (join_str valueParts '': '')) info
                  else info)
       [] (split_str out [nl])"

definition get_info :: "backend \<Rightarrow> response \<times> string list" where
  "get_info p4 =
     (case executeP4Command p4 ''info'' no_options of
        (spawned, Inl msg) \<Rightarrow> (internal_server_error msg, spawned)
      | (spawned, Inr result) \<Rightarrow>
          if \<not> result_success result
          then (\<lparr>res_status = 500,
                 res_json = JObj [(''success'', JBool False), (''message'', JStr ''Failed to get server info''),
                                  (''error'', json_str (result_error result))]\<rparr>, spawned)
          else (case result_output result of
                  None \<Rightarrow> (internal_server_error null_split_message, spawned)
                | Some out \<Rightarrow>
                    (\<lparr>res_status = 200,
                      res_json = JObj [(''success'', JBool True),
                                       (''data'', JObj (map (\<lambda>(k, v). (k, JStr v)) (parse_info out)))]\<rparr>,
                     spawned)))"

definition files_depotPath :: "request \<Rightarrow> jsval" where
  "files_depotPath req = or_else (query_of req ''path'') (VStr ''//depot/...'')"

definition files_maxFiles :: "request \<Rightarrow> jsval" where
  "files_maxFiles req = or_else (query_of req ''max'') (VNum 100)"

definition files_command :: "request \<Rightarrow> string" where
  "files_command req =
     ''files -m '' @ to_string (files_maxFiles req) @ '' '' @ dq @ to_string (files_depotPath req) @ dq"

definition get_files :: "backend \<Rightarrow> request \<Rightarrow> response \<times> string list" where
  "get_files p4 req =
     (case executeP4Command p4 (files_command req) no_options of
        (spawned, Inl msg) \<Rightarrow> (internal_server_error msg, spawned)
      | (spawned, Inr result) \<Rightarrow>
          if \<not> result_success result
          then (\<lparr>res_status = 500,
                 res_json = JObj [(''success'', JBool False), (''message'', JStr ''Failed to list files''),
                                  (''error'', json_str (result_error result))]\<rparr>, spawned)
          else (case result_output result of
                  None \<Rightarrow> (internal_server_error null_split_message, spawned)
                | Some out \<Rightarrow>
                    (\<lparr>res_status = 200,
                      res_json = JObj [(''success'', JBool True),
                                       (''data'', props [(''rawOutput'', Some (JStr out)),
                                                         (''count'', Some (JNum (int (count_lines out)))),
                                                         (''path'', json_of (files_depotPath req))])]\<rparr>,
                     spawned)))"

definition content_revision :: "request \<Rightarrow> string" where
  "content_revision req =
     (if truthy (query_of req ''revision'') then ''#'' @ to_string (query_of req ''revision'') else [])"

definition content_command :: "request \<Rightarrow> string" where
  "content_command req =
     ''print -q '' @ dq @ to_string (query_of req ''path'') @ content_revision req @ dq"

definition get_files_content :: "backend \<Rightarrow> request \<Rightarrow> response \<times> string list" where
  "get_files_content p4 req =
     (case executeP4Command p4 (content_command req) no_options of
        (spawned, Inl msg) \<Rightarrow> (internal_server_error msg, spawned)
      | (spawned, Inr result) \<Rightarrow>
          if \<not> result_success result
          then (\<lparr>res_status = 404,
                 res_json = JObj [(''success'', JBool False),
                                  (''message'', JStr ''File not found or cannot be accessed''),
                                  (''error'', json_str (result_error result))]\<rparr>, spawned)
          else (\<lparr>res_status = 200,
                 res_json = JObj [(''success'', JBool True),
                                  (''data'', props [(''path'', json_of (query_of req ''path'')),
                                                    (''revision'', Some (JStr (content_revision req))),
                                                    (''content'', Some (json_str (result_output result)))])]\<rparr>,
                spawned))"

definition history_maxChanges :: "request \<Rightarrow> jsval" where
  "history_maxChanges req = or_else (query_of req ''max'') (VNum 10)"

definition history_command :: "request \<Rightarrow> string" where
  "history_command req =
     ''filelog -m '' @ to_string (history_maxChanges req) @ '' '' @ dq @ to_string (query_of req ''path'') @ dq"

definition get_files_history :: "backend \<Rightarrow> request \<Rightarrow> response \<times> string list" where
  "get_files_history p4 req =
     (case executeP4Command p4 (history_command req) no_options of
        (spawned, Inl msg) \<Rightarrow> (internal_server_error msg, spawned)
      | (spawned, Inr result) \<Rightarrow>
          if \<not> result_success result
          then (\<lparr>res_status = 404,
                 res_json = JObj [(''success'', JBool False), (''message'', JStr ''File history not found''),
                                  (''error'', json_str (result_error result))]\<rparr>, spawned)
          else (\<lparr>res_status = 200,
                 res_json = JObj [(''success'', JBool True),
                                  (''data'', props [(''path'', json_of (query_of req ''path'')),
                                                    (''history'', Some (json_str (result_output result)))])]\<rparr>,
                spawned))"

definition changes_maxChanges :: "request \<Rightarrow> jsval" where
  "changes_maxChanges req = or_else (query_of req ''max'') (VNum 20)"

definition changes_command :: "request \<Rightarrow> string" where
  "changes_command req =
     ''changes -m '' @ to_string (changes_maxChanges req)
     @ (if truthy (query_of req ''status'') then '' -s '' @ to_string (query_of req ''status'') else [])
     @ (if truthy (query_of req ''user'') then '' -u '' @ to_string (query_of req ''user'') else [])"

definition get_changes :: "backend \<Rightarrow> request \<Rightarrow> response \<times> string list" where
  "get_changes p4 req =
     (case executeP4Command p4 (changes_command req) no_options of
        (spawned, Inl msg) \<Rightarrow> (internal_server_error msg, spawned)
      | (spawned, Inr result) \<Rightarrow>
          if \<not> result_success result
          then (\<lparr>res_status = 500,
                 res_json = JObj [(''success'', JBool False), (''message'', JStr ''Failed to list changes''),
                                  (''error'', json_str (result_error result))]\<rparr>, spawned)
          else (case result_output result of
                  None \<Rightarrow> (internal_server_error null_split_message, spawned)
                | Some out \<Rightarrow>
                    (\<lparr>res_status = 200,
                      res_json = JObj [(''success'', JBool True),
                                       (''data'', props [(''rawOutput'', Some (JStr out)),
                                                         (''count'', Some (JNum (int (count_lines out))))])]\<rparr>,
                     spawned)))"

text \<open>
  \<open>parseInt\<close> in radix 10: leading white space and one sign are skipped, the digits that
  follow are read, and without a digit the result is \<open>NaN\<close> (\<open>None\<close>, which
  \<open>JSON.stringify\<close> prints as \<open>null\<close>). The callers pass strings of an optional sign
  and digits only. The value is kept as an integer (JavaScript rounds above \<open>2^53\<close>).
\<close>

definition parseInt :: "string \<Rightarrow> int option" where
  "parseInt s =
     (let t = dropWhile is_space s;
          ds = takeWhile is_digit (unsigned_part t)
      in if ds = [] then None
         else if t \<noteq> [] \<and> hd t = CHR ''-'' then Some (- int (parse_digits ds))
         else Some (int (parse_digits ds)))"

definition json_num :: "int option \<Rightarrow> json" where
  "json_num n = (case n of None \<Rightarrow> JNull | Some i \<Rightarrow> JNum i)"

definition change_command :: "request \<Rightarrow> string" where
  "change_command req = ''describe -s '' @ to_string (param_of req ''changeId'')"

definition get_change :: "backend \<Rightarrow> request \<Rightarrow> response \<times> string list" where
  "get_change p4 req =
     (case executeP4Command p4 (change_command req) no_options of
        (spawned, Inl msg) \<Rightarrow> (internal_server_error msg, spawned)
      | (spawned, Inr result) \<Rightarrow>
          if \<not> result_success result
          then (\<lparr>res_status = 404,
                 res_json = JObj [(''success'', JBool False), (''message'', JStr ''Change not found''),
                                  (''error'', json_str (result_error result))]\<rparr>, spawned)
          else (\<lparr>res_status = 200,
                 res_json = JObj [(''success'', JBool True),
                                  (''data'', props [(''changeId'', Some (json_num (parseInt (to_string (param_of req ''changeId''))))),
                                                    (''rawOutput'', Some (json_str (result_output result)))])]\<rparr>,
                spawned))"

definition get_users :: "backend \<Rightarrow> response \<times> string list" where
  "get_users p4 =
     (case executeP4Command p4 ''users'' no_options of
        (spawned, Inl msg) \<Rightarrow> (internal_server_error msg, spawned)
      | (spawned, Inr result) \<Rightarrow>
          if \<not> result_success result
          then (\<lparr>res_status = 500,
                 res_json = JObj [(''success'', JBool False), (''message'', JStr ''Failed to list users''),
                                  (''error'', json_str (result_error result))]\<rparr>, spawned)
          else (case result_output result of
                  None \<Rightarrow> (internal_server_error null_split_message, spawned)
                | Some out \<Rightarrow>
                    (\<lparr>res_status = 200,
                      res_json = JObj [(''success'', JBool True),
                                       (''data'', props [(''rawOutput'', Some (JStr out)),
                                                         (''count'', Some (JNum (int (count_lines out))))])]\<rparr>,
                     spawned)))"

definition sync_path :: "request \<Rightarrow> jsval" where
  "sync_path req = or_else (body_of req ''path'') (VStr ''//depot/...'')"

definition sync_force :: "request \<Rightarrow> jsval" where
  "sync_force req = or_else (body_of req ''force'') (VBool False)"

definition sync_command :: "request \<Rightarrow> string" where
  "sync_command req =
     ''sync'' @ (if truthy (sync_force req) then '' -f'' else []) @ '' '' @ dq @ to_string (sync_path req) @ dq"

text \<open>The sync handler does not look at \<open>result.success\<close>.\<close>

definition post_sync :: "backend \<Rightarrow> request \<Rightarrow> response \<times> string list" where
  "post_sync p4 req =
     (case executeP4Command p4 (sync_command req) no_options of
        (spawned, Inl msg) \<Rightarrow> (internal_server_error msg, spawned)
      | (spawned, Inr result) \<Rightarrow>
          (\<lparr>res_status = 200,
            res_json = JObj [(''success'', JBool True),
                             (''data'', props [(''path'', json_of (sync_path req)),
                                               (''rawOutput'', Some (json_str (result_output result))),
                                               (''forced'', json_of (sync_force req))])]\<rparr>,
           spawned))"

definition get_docs :: "response \<times> string list" where
  "get_docs =
     (\<lparr>res_status = 200,
       res_json = JObj
         [(''title'', JStr ''Perforce REST API''), (''version'', JStr ''1.0.0''),
          (''endpoints'', JObj
             [(''GET /health'', JStr ''Health check''),
              (''GET /api/info'', JStr ''Get server information''),
              (''GET /api/files'', JStr ''List files in depot (returns raw P4 output) (query: path, max)''),
              (''GET /api/files/content'', JStr ''Get file content (query: path, revision)''),
              (''GET /api/files/history'', JStr ''Get file history (returns raw P4 output) (query: path, max)''),
              (''GET /api/changes'', JStr ''List changes (returns raw P4 output) (query: max, status, user)''),
              (''GET /api/changes/:changeId'', JStr ''Get change details (returns raw P4 output)''),
              (''GET /api/users'', JStr ''List users (returns raw P4 output)''),
              (''POST /api/sync'', JStr ''Sync files (returns raw P4 output) (body: path, force)''),
              (''GET /api/docs'', JStr ''This documentation'')]),
          (''examples'', JObj
             [(''List recent files (raw)'', JStr ''GET /api/files?path=//depot/...&max=10''),
              (''Get file content'', JStr ''GET /api/files/content?path=//depot/main/README.md''),
              (''List recent changes (raw)'', JStr ''GET /api/changes?max=5''),
              (''Sync depot'', JStr (''POST /api/sync {'' @ dq @ ''path'' @ dq @ '': '' @ dq @ ''//depot/...'' @ dq @ ''}''))])]\<rparr>,
      [])"

text \<open>The \<open>404 handler\<close> behind all routes, and the error-handling middleware.\<close>

definition not_found :: "response \<times> string list" where
  "not_found =
     (\<lparr>res_status = 404,
       res_json = JObj [(''success'', JBool False), (''message'', JStr ''Endpoint not found''),
                        (''availableEndpoints'', JStr ''/api/docs'')]\<rparr>, [])"

definition errorMiddleware :: "string option \<Rightarrow> string \<Rightarrow> response" where
  "errorMiddleware node_env msg =
     \<lparr>res_status = 500,
      res_json = JObj [(''success'', JBool False), (''message'', JStr ''Internal server error''),
                       (''error'', JStr (if node_env = Some ''development'' then msg else ''Something went wrong''))]\<rparr>"

text \<open>
  The routing table: each route with its validation chains, \<open>handleValidationErrors\<close>
  and its handler, in the order \<open>server.js\<close> registers them. \<open>now\<close> is what
  \<open>new Date().toISOString()\<close> returns. (The rate limiter in front of \<open>/api/\<close> is not
  part of the handlers and is left out.)
\<close>

definition serve :: "backend \<Rightarrow> string \<Rightarrow> request \<Rightarrow> response \<times> string list" where
  "serve p4 now req =
     (case req_route req of
        Health \<Rightarrow> get_health p4 now
      | Info \<Rightarrow> get_info p4
      | Files \<Rightarrow> handleValidationErrors files_chains req (get_files p4 req)
      | FileContent \<Rightarrow> handleValidationErrors content_chains req (get_files_content p4 req)
      | FileHistory \<Rightarrow> handleValidationErrors history_chains req (get_files_history p4 req)
      | Changes \<Rightarrow> handleValidationErrors changes_chains req (get_changes p4 req)
      | ChangeDetail \<Rightarrow> handleValidationErrors change_chains req (get_change p4 req)
      | Users \<Rightarrow> get_users p4
      | Sync \<Rightarrow> handleValidationErrors sync_chains req (post_sync p4 req)
      | Docs \<Rightarrow> get_docs
      | Unmatched \<Rightarrow> not_found)"

text \<open>The command a route's handler builds from a request.\<close>

definition command_of :: "request \<Rightarrow> string option" where
  "command_of req =
     (case req_route req of
        Health \<Rightarrow> Some ''info''
      | Info \<Rightarrow> Some ''info''
      | Files \<Rightarrow> Some (files_command req)
      | FileContent \<Rightarrow> Some (content_command req)
      | FileHistory \<Rightarrow> Some (history_command req)
      | Changes \<Rightarrow> Some (changes_command req)
      | ChangeDetail \<Rightarrow> Some (change_command req)
      | Users \<Rightarrow> Some ''users''
      | Sync \<Rightarrow> Some (sync_command req)
      | Docs \<Rightarrow> None
      | Unmatched \<Rightarrow> None)"

section \<open>The tool adapter: the sensitive-change scan\<close>
























section \<open>The specification's notions\<close>

text \<open>
  The lines of a text are what lies between its newline characters; a line is blank when
  it holds nothing but white space.
\<close>

definition text_lines :: "string \<Rightarrow> string list" where
  "text_lines t = foldr (\<lambda>c ls. if c = nl then [] # ls else (c # hd ls) # tl ls) t [[]]"

definition blank :: "string \<Rightarrow> bool" where
  "blank l \<longleftrightarrow> (\<forall>c \<in> set l. is_space c)"

definition nonblank_line_count :: "string \<Rightarrow> nat" where
  "nonblank_line_count t = length (filter (\<lambda>l. \<not> blank l) (text_lines t))"




text \<open>An envelope carries a field when the field is present in the JSON object.\<close>

definition carries :: "string \<Rightarrow> json \<Rightarrow> bool" where
  "carries k j \<longleftrightarrow> jfield k j \<noteq> None"

definition data_field :: "string \<Rightarrow> response \<Rightarrow> json option" where
  "data_field k res = (case jfield ''data'' (res_json res) of None \<Rightarrow> None | Some d \<Rightarrow> jfield k d)"

text \<open>
  The envelope invariant as the specification words it: a success envelope carries
  \<open>data\<close>; a failure envelope carries no \<open>data\<close>, but \<open>message\<close> and \<open>error\<close> or
  \<open>errors\<close>.
\<close>

definition well_shaped :: "json \<Rightarrow> bool" where
  "well_shaped j \<longleftrightarrow>
     (jfield ''success'' j = Some (JBool True) \<longrightarrow> carries ''data'' j) \<and>
     (jfield ''success'' j = Some (JBool False) \<longrightarrow>
        \<not> carries ''data'' j \<and> carries ''message'' j \<and> (carries ''error'' j \<or> carries ''errors'' j))"

text \<open>
  A parameter violates a declared constraint: its chain checks the field (the field is
  not an absent optional one) and a validator of the chain does not pass on its value.
  \<open>violation_error\<close> is the entry that names the violation.
\<close>

definition checked :: "request \<Rightarrow> chain \<Rightarrow> bool" where
  "checked req c \<longleftrightarrow> \<not> (chain_optional c \<and> field_value req (chain_location c) (chain_field c) = VUndefined)"

definition violation :: "request \<Rightarrow> chain \<Rightarrow> validator \<times> string \<Rightarrow> bool" where
  "violation req c vm \<longleftrightarrow>
     vm \<in> set (chain_validators c) \<and> checked req c
     \<and> \<not> passes (fst vm) (field_value req (chain_location c) (chain_field c))"

definition violation_error :: "request \<Rightarrow> chain \<Rightarrow> validator \<times> string \<Rightarrow> validation_error" where
  "violation_error req c vm =
     \<lparr>err_value = field_value req (chain_location c) (chain_field c), err_msg = snd vm,
      err_path = chain_field c, err_location = chain_location c\<rparr>"


section \<open>Concrete backends and requests\<close>

definition failing_backend :: backend where
  "failing_backend command dir ms = Rejected (''Command failed: '' @ command)"

definition timestamp :: string where
  "timestamp = ''2024-01-01T00:00:00.000Z''"

definition bare_request :: "route \<Rightarrow> request" where
  "bare_request r = \<lparr>req_route = r, req_query = Map.empty, req_params = Map.empty, req_body = Map.empty\<rparr>"

definition change_999999 :: request where
  "change_999999 = (bare_request ChangeDetail)\<lparr>req_params := Map.empty(''changeId'' \<mapsto> ''999999'')\<rparr>"

definition content_without_path :: request where
  "content_without_path = (bare_request FileContent)\<lparr>req_query := Map.empty(''revision'' \<mapsto> ''x'')\<rparr>"

definition listing_output :: string where
  "listing_output = ''a.txt#1 - add'' @ [nl] @ [nl] @ ''  '' @ [nl] @ ''b.txt#2 - edit''"

definition listing_backend :: backend where
  "listing_backend command dir ms = Resolved (listing_output @ [nl]) []"


definition files_max_5 :: request where
  "files_max_5 = (bare_request Files)\<lparr>req_query := Map.empty(''max'' \<mapsto> ''5'')\<rparr>"










section \<open>Properties of the executor\<close>

lemma executeP4Command_Inr:
  "\<exists>r. executeP4Command p4 command options = ([fullCommand command], Inr r)"
  by (simp add: executeP4Command_def split: exec_outcome.split)

lemma executeP4Command_cases:
  obtains out err where "p4 (fullCommand command) (effective_cwd options) (effective_timeout options) = Resolved out err"
      and "executeP4Command p4 command options =
             ([fullCommand command], Inr \<lparr>result_success = True, result_output = Some (trim out), result_error = None\<rparr>)"
  | msg where "p4 (fullCommand command) (effective_cwd options) (effective_timeout options) = Rejected msg"
      and "executeP4Command p4 command options =
             ([fullCommand command], Inr \<lparr>result_success = False, result_output = None, result_error = Some msg\<rparr>)"
  by (cases "p4 (fullCommand command) (effective_cwd options) (effective_timeout options)")
     (simp_all add: executeP4Command_def)

text \<open>
  C3. Whatever the command, the options and the child process do, \<open>executeP4Command\<close>
  throws nothing and returns an object: after a normal exit it reports success with the
  trimmed standard output and no error, after a rejection of \<open>exec\<close> it reports failure
  with no output and the error's message. In both cases exactly one of the output and the
  error is set, and success goes with the output.
\<close>

theorem executeP4Command_captures:
  "\<exists>r. executeP4Command p4 command options = ([fullCommand command], Inr r) \<and>
       r = (case p4 (fullCommand command) (effective_cwd options) (effective_timeout options) of
              Resolved out err \<Rightarrow> \<lparr>result_success = True, result_output = Some (trim out), result_error = None\<rparr>
            | Rejected msg \<Rightarrow> \<lparr>result_success = False, result_output = None, result_error = Some msg\<rparr>) \<and>
       (result_output r = None) = (result_error r \<noteq> None) \<and>
       result_success r = (result_output r \<noteq> None) \<and>
       result_success r = (result_error r = None)"
proof (cases rule: executeP4Command_cases [of p4 command options])
  case (1 out err)
  then show ?thesis by simp
next
  case (2 msg)
  then show ?thesis by simp
qed

section \<open>Properties of the health check\<close>

text \<open>
  C10. The executor call of \<open>/health\<close> always resolves, and the endpoint then answers
  200 with status \<open>healthy\<close>, whether or not the command succeeded; only the
  \<open>perforce\<close> field tells the two apart. The answer is never the 503 of the
  \<open>catch\<close> block and never says \<open>unhealthy\<close>.
\<close>

theorem health_always_200:
  "\<exists>spawned r. executeP4Command p4 ''info'' no_options = (spawned, Inr r) \<and>
     get_health p4 now =
       (\<lparr>res_status = 200,
         res_json = JObj [(''status'', JStr ''healthy''), (''timestamp'', JStr now),
                          (''perforce'', JStr (if result_success r then ''connected'' else ''disconnected'')),
                          (''version'', JStr ''1.0.0'')]\<rparr>, spawned) \<and>
     res_status (fst (get_health p4 now)) \<noteq> 503 \<and>
     jfield ''status'' (res_json (fst (get_health p4 now))) \<noteq> Some (JStr ''unhealthy'')"
proof -
  obtain r where r: "executeP4Command p4 ''info'' no_options = ([fullCommand ''info''], Inr r)"
    using executeP4Command_Inr by blast
  then show ?thesis
    by (simp add: get_health_def jfield_def)
qed

text \<open>
  C4, where it fails. With a backend whose commands all fail, \<open>/health\<close> still reports
  the status \<open>healthy\<close> (not \<open>degraded\<close>), the same status as with a backend that
  answers, and its payload has a \<open>perforce\<close> string and no \<open>backendConnected\<close> flag.
\<close>

theorem health_status_counterexample:
  "snd (executeP4Command failing_backend ''info'' no_options)
     = Inr \<lparr>result_success = False, result_output = None, result_error = Some ''Command failed: p4 info''\<rparr> \<and>
   fst (get_health failing_backend timestamp)
     = \<lparr>res_status = 200,
        res_json = JObj [(''status'', JStr ''healthy''), (''timestamp'', JStr timestamp),
                         (''perforce'', JStr ''disconnected''), (''version'', JStr ''1.0.0'')]\<rparr> \<and>
   jfield ''status'' (res_json (fst (get_health failing_backend timestamp))) \<noteq> Some (JStr ''degraded'') \<and>
   jfield ''status'' (res_json (fst (get_health failing_backend timestamp)))
     = jfield ''status'' (res_json (fst (get_health listing_backend timestamp))) \<and>
   jfield ''backendConnected'' (res_json (fst (get_health failing_backend timestamp))) = None"
  by (simp add: get_health_def executeP4Command_def failing_backend_def listing_backend_def fullCommand_def
      jfield_def)

text \<open>
  C4, amended. \<open>/health\<close> runs the same \<open>info\<close> command as \<open>/api/info\<close> and
  answers 200 with \<open>status\<close> (always \<open>healthy\<close>), \<open>timestamp\<close>, \<open>perforce\<close> and
  \<open>version\<close>; the \<open>perforce\<close> field is \<open>connected\<close> exactly when the command
  succeeded. The info endpoint answers 500 on the same failure.
\<close>

theorem health_reports_perforce:
  "\<exists>r. executeP4Command p4 ''info'' no_options = ([''p4 info''], Inr r) \<and>
       snd (get_health p4 now) = [''p4 info''] \<and>
       snd (get_info p4) = [''p4 info''] \<and>
       fst (get_health p4 now) =
         \<lparr>res_status = 200,
          res_json = JObj [(''status'', JStr ''healthy''), (''timestamp'', JStr now),
                           (''perforce'', JStr (if result_success r then ''connected'' else ''disconnected'')),
                           (''version'', JStr ''1.0.0'')]\<rparr> \<and>
       res_status (fst (get_info p4)) = (if result_success r then 200 else 500)"
  by (cases rule: executeP4Command_cases [of p4 "''info''" no_options])
     (simp_all add: get_health_def get_info_def fullCommand_def)

section \<open>Properties of validation\<close>

lemma handleValidationErrors_pass:
  "validationResult cs req = [] \<Longrightarrow> handleValidationErrors cs req next_handler = next_handler"
  by (simp add: handleValidationErrors_def)

lemma handleValidationErrors_fail:
  "validationResult cs req \<noteq> [] \<Longrightarrow>
   handleValidationErrors cs req next_handler =
     (\<lparr>res_status = 400,
       res_json = JObj [(''success'', JBool False), (''message'', JStr ''Validation errors''),
                        (''errors'', JArr (map error_json (validationResult cs req)))]\<rparr>, [])"
  by (simp add: handleValidationErrors_def)

lemma run_chain_complete:
  assumes "violation req c vm"
  shows "violation_error req c vm \<in> set (run_chain req c)"
proof -
  obtain vd m where vm: "vm = (vd, m)" by (cases vm)
  with assms show ?thesis
    by (force simp: run_chain_def violation_def checked_def violation_error_def Let_def)
qed

lemma validationResult_complete:
  assumes "c \<in> set cs" and "violation req c vm"
  shows "violation_error req c vm \<in> set (validationResult cs req)"
  using assms by (auto simp: validationResult_def intro!: bexI [of _ c] run_chain_complete)

lemma serve_invalid:
  assumes "validationResult (chains_of (req_route req)) req \<noteq> []"
  shows "serve p4 now req =
           (\<lparr>res_status = 400,
             res_json = JObj [(''success'', JBool False), (''message'', JStr ''Validation errors''),
                              (''errors'', JArr (map error_json (validationResult (chains_of (req_route req)) req)))]\<rparr>,
            [])"
  using assms
  by (cases "req_route req")
     (simp_all add: serve_def chains_of_def handleValidationErrors_fail validationResult_def)

text \<open>
  C5. When a parameter of a request violates a constraint declared for its route, the
  answer is the 400 envelope with every recorded error (the whole \<open>validationResult\<close>),
  the list holds the error of that violation and of every other violation of the request,
  and no command is spawned.
\<close>

theorem validation_failure_reply:
  assumes c: "c \<in> set (chains_of (req_route req))"
      and v: "violation req c vm"
  shows "serve p4 now req =
           (\<lparr>res_status = 400,
             res_json = JObj [(''success'', JBool False), (''message'', JStr ''Validation errors''),
                              (''errors'', JArr (map error_json (validationResult (chains_of (req_route req)) req)))]\<rparr>,
            []) \<and>
         violation_error req c vm \<in> set (validationResult (chains_of (req_route req)) req) \<and>
         (\<forall>c' \<in> set (chains_of (req_route req)). \<forall>vm'. violation req c' vm' \<longrightarrow>
            violation_error req c' vm' \<in> set (validationResult (chains_of (req_route req)) req))"
proof -
  have mem: "violation_error req c vm \<in> set (validationResult (chains_of (req_route req)) req)"
    using c v by (rule validationResult_complete)
  then have ne: "validationResult (chains_of (req_route req)) req \<noteq> []" by auto
  note reply = serve_invalid [OF ne, of p4 now]
  from mem reply show ?thesis
    using validationResult_complete by blast
qed

lemma content_without_path_errors:
  "validationResult (chains_of (req_route content_without_path)) content_without_path =
     [\<lparr>err_value = VUndefined, err_msg = ''Invalid value'', err_path = ''path'', err_location = InQuery\<rparr>,
      \<lparr>err_value = VUndefined, err_msg = ''Path is required and must be a string'', err_path = ''path'', err_location = InQuery\<rparr>,
      \<lparr>err_value = VStr ''x'', err_msg = ''Revision must be a number'', err_path = ''revision'', err_location = InQuery\<rparr>]"
  by (simp add: content_without_path_def bare_request_def chains_of_def content_chains_def validationResult_def
      run_chain_def withMessage_def add_validator_def field_chain_def optional_def field_value_def query_of_def
      is_int_string_def unsigned_part_def is_digit_def)

theorem validation_failure_reply_witness:
  "serve failing_backend timestamp content_without_path =
     (\<lparr>res_status = 400,
       res_json = JObj [(''success'', JBool False), (''message'', JStr ''Validation errors''),
          (''errors'', JArr
             [JObj [(''type'', JStr ''field''), (''msg'', JStr ''Invalid value''), (''path'', JStr ''path''),
                    (''location'', JStr ''query'')],
              JObj [(''type'', JStr ''field''), (''msg'', JStr ''Path is required and must be a string''),
                    (''path'', JStr ''path''), (''location'', JStr ''query'')],
              JObj [(''type'', JStr ''field''), (''value'', JStr ''x''), (''msg'', JStr ''Revision must be a number''),
                    (''path'', JStr ''revision''), (''location'', JStr ''query'')]])]\<rparr>,
      [])"
proof -
  let ?c = "withMessage ''Revision must be a number''
        (add_validator (IsInt None None) (optional (field_chain InQuery ''revision'')))"
  have c: "?c \<in> set (chains_of (req_route content_without_path))"
    by (simp add: content_without_path_def bare_request_def chains_of_def content_chains_def)
  have v: "violation content_without_path ?c (IsInt None None, ''Revision must be a number'')"
    by (simp add: violation_def checked_def content_without_path_def bare_request_def withMessage_def
        add_validator_def field_chain_def optional_def field_value_def query_of_def
        is_int_string_def unsigned_part_def is_digit_def)
  show ?thesis
    using validation_failure_reply [OF c v, of failing_backend timestamp]
    by (simp add: content_without_path_errors error_json_def props_def location_name_def)
qed

section \<open>Properties of the handlers\<close>

text \<open>
  C1. When the command of a valid request fails, the lookups (file content, file history,
  change detail) answer 404 and the collections (info, file list, change list, user list)
  answer 500, each with a failure envelope that carries the executor's error text and no
  data.
\<close>

theorem backend_failure_status:
  assumes valid: "validationResult (chains_of (req_route req)) req = []"
      and cmd: "command_of req = Some cmd"
      and run: "executeP4Command p4 cmd no_options = (spawned, Inr result)"
      and failed: "\<not> result_success result"
  shows "(req_route req \<in> {FileContent, FileHistory, ChangeDetail} \<longrightarrow>
            res_status (fst (serve p4 now req)) = 404) \<and>
         (req_route req \<in> {Info, Files, Changes, Users} \<longrightarrow>
            res_status (fst (serve p4 now req)) = 500) \<and>
         (req_route req \<in> {FileContent, FileHistory, ChangeDetail, Info, Files, Changes, Users} \<longrightarrow>
            jfield ''success'' (res_json (fst (serve p4 now req))) = Some (JBool False) \<and>
            jfield ''error'' (res_json (fst (serve p4 now req))) = Some (json_str (result_error result)) \<and>
            jfield ''message'' (res_json (fst (serve p4 now req))) \<noteq> None \<and>
            jfield ''data'' (res_json (fst (serve p4 now req))) = None \<and>
            snd (serve p4 now req) = spawned)"
proof (cases "req_route req")
  case Info
  with cmd run failed show ?thesis
    by (simp add: serve_def command_of_def get_info_def jfield_def)
next
  case Files
  with valid cmd run failed show ?thesis
    by (simp add: serve_def command_of_def chains_of_def handleValidationErrors_pass get_files_def jfield_def)
next
  case FileContent
  with valid cmd run failed show ?thesis
    by (simp add: serve_def command_of_def chains_of_def handleValidationErrors_pass get_files_content_def jfield_def)
next
  case FileHistory
  with valid cmd run failed show ?thesis
    by (simp add: serve_def command_of_def chains_of_def handleValidationErrors_pass get_files_history_def jfield_def)
next
  case Changes
  with valid cmd run failed show ?thesis
    by (simp add: serve_def command_of_def chains_of_def handleValidationErrors_pass get_changes_def jfield_def)
next
  case ChangeDetail
  with valid cmd run failed show ?thesis
    by (simp add: serve_def command_of_def chains_of_def handleValidationErrors_pass get_change_def jfield_def)
next
  case Users
  with cmd run failed show ?thesis
    by (simp add: serve_def command_of_def get_users_def jfield_def)
qed simp_all

lemma change_999999_valid: "validationResult (chains_of (req_route change_999999)) change_999999 = []"
  by (simp add: change_999999_def bare_request_def chains_of_def change_chains_def validationResult_def
      run_chain_def withMessage_def add_validator_def field_chain_def field_value_def param_of_def
      is_int_string_def unsigned_part_def is_digit_def)

theorem backend_failure_status_witness:
  "res_status (fst (serve failing_backend timestamp change_999999)) = 404 \<and>
   jfield ''success'' (res_json (fst (serve failing_backend timestamp change_999999))) = Some (JBool False) \<and>
   jfield ''error'' (res_json (fst (serve failing_backend timestamp change_999999)))
     = Some (JStr ''Command failed: p4 describe -s 999999'') \<and>
   jfield ''data'' (res_json (fst (serve failing_backend timestamp change_999999))) = None \<and>
   snd (serve failing_backend timestamp change_999999) = [''p4 describe -s 999999'']"
proof -
  have c: "command_of change_999999 = Some ''describe -s 999999''"
    by (simp add: command_of_def change_command_def change_999999_def bare_request_def param_of_def)
  have r: "executeP4Command failing_backend ''describe -s 999999'' no_options =
      ([''p4 describe -s 999999''],
       Inr \<lparr>result_success = False, result_output = None,
            result_error = Some ''Command failed: p4 describe -s 999999''\<rparr>)"
    by (simp add: executeP4Command_def failing_backend_def fullCommand_def)
  have rt: "req_route change_999999 = ChangeDetail"
    by (simp add: change_999999_def bare_request_def)
  show ?thesis
    using backend_failure_status [OF change_999999_valid c r, of timestamp] rt
    by (simp add: json_str_def)
qed

text \<open>
  C2. A sync whose command fails is to be answered with \<open>success: true\<close> and the raw
  backend output in the payload. At a sync request with an empty body and a backend whose
  command fails, the handler does answer 200 with \<open>success: true\<close>, but the payload
  holds no backend output: \<open>rawOutput\<close> is \<open>null\<close>, and the failure text that the
  executor returned in \<open>result.error\<close> is not sent.
\<close>

theorem sync_failure_rawOutput_null:
  "snd (executeP4Command failing_backend (sync_command (bare_request Sync)) no_options)
     = Inr \<lparr>result_success = False, result_output = None,
            result_error = Some (''Command failed: p4 sync '' @ dq @ ''//depot/...'' @ dq)\<rparr> \<and>
   fst (serve failing_backend timestamp (bare_request Sync))
     = \<lparr>res_status = 200,
        res_json = JObj [(''success'', JBool True),
                         (''data'', JObj [(''path'', JStr ''//depot/...''), (''rawOutput'', JNull),
                                          (''forced'', JBool False)])]\<rparr>"
  by (simp add: serve_def bare_request_def sync_chains_def handleValidationErrors_def validationResult_def
      run_chain_def withMessage_def add_validator_def field_chain_def optional_def field_value_def body_of_def
      post_sync_def sync_command_def sync_force_def sync_path_def or_else_def executeP4Command_def
      failing_backend_def fullCommand_def props_def json_str_def)

text \<open>
  C9, where it fails. The 404 handler for unmatched routes sends a failure envelope
  with \<open>message\<close> and \<open>availableEndpoints\<close>, and neither \<open>error\<close> nor \<open>errors\<close>.
\<close>

theorem not_found_envelope_counterexample:
  "\<not> well_shaped (res_json (fst (serve failing_backend timestamp (bare_request Unmatched))))"
  by (simp add: serve_def bare_request_def not_found_def well_shaped_def carries_def jfield_def)

lemma handler_shapes:
  "well_shaped (res_json (fst (get_info p4)))"
  "well_shaped (res_json (fst (get_files p4 req)))"
  "well_shaped (res_json (fst (get_files_content p4 req)))"
  "well_shaped (res_json (fst (get_files_history p4 req)))"
  "well_shaped (res_json (fst (get_changes p4 req)))"
  "well_shaped (res_json (fst (get_change p4 req)))"
  "well_shaped (res_json (fst (get_users p4)))"
  "well_shaped (res_json (fst (post_sync p4 req)))"
  "well_shaped (res_json (fst (get_health p4 now)))"
  "well_shaped (res_json (fst get_docs))"
proof -
  show "well_shaped (res_json (fst (get_info p4)))"
    by (cases rule: executeP4Command_cases [of p4 "''info''" no_options])
       (simp_all add: get_info_def well_shaped_def carries_def jfield_def internal_server_error_def json_str_def)
  show "well_shaped (res_json (fst (get_files p4 req)))"
    by (cases rule: executeP4Command_cases [of p4 "files_command req" no_options])
       (simp_all add: get_files_def well_shaped_def carries_def jfield_def internal_server_error_def json_str_def)
  show "well_shaped (res_json (fst (get_files_content p4 req)))"
    by (cases rule: executeP4Command_cases [of p4 "content_command req" no_options])
       (simp_all add: get_files_content_def well_shaped_def carries_def jfield_def internal_server_error_def json_str_def)
  show "well_shaped (res_json (fst (get_files_history p4 req)))"
    by (cases rule: executeP4Command_cases [of p4 "history_command req" no_options])
       (simp_all add: get_files_history_def well_shaped_def carries_def jfield_def internal_server_error_def json_str_def)
  show "well_shaped (res_json (fst (get_changes p4 req)))"
    by (cases rule: executeP4Command_cases [of p4 "changes_command req" no_options])
       (simp_all add: get_changes_def well_shaped_def carries_def jfield_def internal_server_error_def json_str_def)
  show "well_shaped (res_json (fst (get_change p4 req)))"
    by (cases rule: executeP4Command_cases [of p4 "change_command req" no_options])
       (simp_all add: get_change_def well_shaped_def carries_def jfield_def internal_server_error_def json_str_def)
  show "well_shaped (res_json (fst (get_users p4)))"
    by (cases rule: executeP4Command_cases [of p4 "''users''" no_options])
       (simp_all add: get_users_def well_shaped_def carries_def jfield_def internal_server_error_def json_str_def)
  show "well_shaped (res_json (fst (post_sync p4 req)))"
    by (cases rule: executeP4Command_cases [of p4 "sync_command req" no_options])
       (simp_all add: post_sync_def well_shaped_def carries_def jfield_def internal_server_error_def json_str_def)
  show "well_shaped (res_json (fst (get_health p4 now)))"
    by (cases rule: executeP4Command_cases [of p4 "''info''" no_options])
       (simp_all add: get_health_def well_shaped_def carries_def jfield_def)
  show "well_shaped (res_json (fst get_docs))"
    by (simp add: get_docs_def well_shaped_def carries_def jfield_def)
qed

lemma validated_shape:
  "well_shaped (res_json (fst next_handler)) \<Longrightarrow>
   well_shaped (res_json (fst (handleValidationErrors cs req next_handler)))"
  by (cases "validationResult cs req = []")
     (simp_all add: handleValidationErrors_pass handleValidationErrors_fail well_shaped_def carries_def jfield_def)

text \<open>
  C9, amended. Every response of a route handler, of the validation middleware and of
  the error middleware satisfies the invariant: with \<open>success: true\<close> it carries
  \<open>data\<close>, with \<open>success: false\<close> it carries no \<open>data\<close> but \<open>message\<close> and
  \<open>error\<close> or \<open>errors\<close>. The 404 handler's envelope has \<open>success: false\<close>, no
  \<open>data\<close>, \<open>message\<close> and \<open>availableEndpoints\<close>.
\<close>

theorem envelope_shape:
  "(req_route req \<noteq> Unmatched \<longrightarrow> well_shaped (res_json (fst (serve p4 now req)))) \<and>
   (req_route req = Unmatched \<longrightarrow>
      jfield ''success'' (res_json (fst (serve p4 now req))) = Some (JBool False) \<and>
      \<not> carries ''data'' (res_json (fst (serve p4 now req))) \<and>
      carries ''message'' (res_json (fst (serve p4 now req))) \<and>
      carries ''availableEndpoints'' (res_json (fst (serve p4 now req)))) \<and>
   well_shaped (res_json (errorMiddleware node_env msg))"
proof -
  have "well_shaped (res_json (errorMiddleware node_env msg))"
    by (simp add: errorMiddleware_def well_shaped_def carries_def jfield_def)
  moreover have "req_route req \<noteq> Unmatched \<Longrightarrow> well_shaped (res_json (fst (serve p4 now req)))"
    by (cases "req_route req") (simp_all add: serve_def handler_shapes validated_shape)
  moreover have "req_route req = Unmatched \<Longrightarrow>
      jfield ''success'' (res_json (fst (serve p4 now req))) = Some (JBool False) \<and>
      \<not> carries ''data'' (res_json (fst (serve p4 now req))) \<and>
      carries ''message'' (res_json (fst (serve p4 now req))) \<and>
      carries ''availableEndpoints'' (res_json (fst (serve p4 now req)))"
    by (simp add: serve_def not_found_def carries_def jfield_def)
  ultimately show ?thesis by blast
qed

theorem envelope_shape_witness:
  "well_shaped (res_json (fst (serve failing_backend timestamp change_999999))) \<and>
   jfield ''success'' (res_json (fst (serve failing_backend timestamp change_999999))) = Some (JBool False) \<and>
   jfield ''success'' (res_json (fst (serve failing_backend timestamp (bare_request Unmatched)))) = Some (JBool False) \<and>
   carries ''availableEndpoints'' (res_json (fst (serve failing_backend timestamp (bare_request Unmatched))))"
proof -
  have a: "req_route change_999999 \<noteq> Unmatched"
    by (simp add: change_999999_def bare_request_def)
  have b: "req_route (bare_request Unmatched) = Unmatched"
    by (simp add: bare_request_def)
  have c: "jfield ''success'' (res_json (fst (serve failing_backend timestamp change_999999))) = Some (JBool False)"
    by (simp add: serve_def change_999999_def bare_request_def handleValidationErrors_pass
        change_999999_valid [unfolded change_999999_def bare_request_def chains_of_def, simplified]
        get_change_def executeP4Command_def failing_backend_def jfield_def)
  show ?thesis
    using envelope_shape [of change_999999 failing_backend timestamp None "[]"]
          envelope_shape [of "bare_request Unmatched" failing_backend timestamp None "[]"] a b c
    by simp
qed

section \<open>Properties of the listings\<close>

lemma text_lines_Nil: "text_lines [] = [[]]"
  by (simp add: text_lines_def)

lemma text_lines_Cons:
  "text_lines (c # cs) =
     (if c = nl then [] # text_lines cs else (c # hd (text_lines cs)) # tl (text_lines cs))"
  by (simp add: text_lines_def)

lemma text_lines_not_Nil: "text_lines t \<noteq> []"
  by (induction t) (simp_all add: text_lines_Nil text_lines_Cons)

lemma split_from_newline:
  "split_from [nl] acc s = (rev acc @ hd (text_lines s)) # tl (text_lines s)"
proof (induction s arbitrary: acc)
  case Nil
  show ?case by (simp add: text_lines_Nil)
next
  case (Cons c cs)
  show ?case
  proof (cases "c = nl")
    case True
    then show ?thesis
      using Cons.IH [of "[]"] text_lines_not_Nil [of cs]
      by (simp add: text_lines_Cons)
  next
    case False
    then show ?thesis
      using Cons.IH [of "c # acc"] by (simp add: text_lines_Cons)
  qed
qed

lemma split_str_newline: "split_str t [nl] = text_lines t"
  using split_from_newline [of "[]" t] text_lines_not_Nil [of t]
  by (simp add: split_str_def)

lemma dropWhile_all_Nil:
  assumes "\<forall>x \<in> set (dropWhile P xs). P x"
  shows "dropWhile P xs = []"
proof (rule ccontr)
  assume ne: "dropWhile P xs \<noteq> []"
  then have "\<not> P (hd (dropWhile P xs))" by (rule hd_dropWhile)
  moreover from ne have "hd (dropWhile P xs) \<in> set (dropWhile P xs)" by simp
  ultimately show False using assms by blast
qed

lemma trim_Nil_iff: "trim l = [] \<longleftrightarrow> blank l"
proof
  assume "trim l = []"
  then have "\<forall>x \<in> set (dropWhile is_space l). is_space x"
    by (simp add: trim_def dropWhile_eq_Nil_conv)
  then have "dropWhile is_space l = []" by (rule dropWhile_all_Nil)
  then show "blank l"
    by (simp add: blank_def dropWhile_eq_Nil_conv)
next
  assume "blank l"
  then have "dropWhile is_space l = []"
    by (auto simp: blank_def dest: set_dropWhileD)
  then show "trim l = []"
    by (simp only: trim_def rev.simps dropWhile.simps)
qed

lemma count_lines_nonblank: "count_lines out = nonblank_line_count out"
  by (simp add: count_lines_def nonblank_line_count_def split_str_newline trim_Nil_iff)


lemma validated_success:
  assumes "jfield ''success'' (res_json (fst (handleValidationErrors cs req next_handler))) = Some (JBool True)"
  shows "handleValidationErrors cs req next_handler = next_handler"
proof (cases "validationResult cs req = []")
  case True
  then show ?thesis by (rule handleValidationErrors_pass)
next
  case False
  with assms show ?thesis
    by (simp add: handleValidationErrors_fail jfield_def)
qed

lemma get_files_count:
  assumes "jfield ''success'' (res_json (fst (get_files p4 req))) = Some (JBool True)"
  shows "\<exists>out. data_field ''rawOutput'' (fst (get_files p4 req)) = Some (JStr out) \<and>
               data_field ''count'' (fst (get_files p4 req)) = Some (JNum (int (count_lines out)))"
  using assms
  by (cases rule: executeP4Command_cases [of p4 "files_command req" no_options])
     (simp_all add: get_files_def data_field_def jfield_def props_def)

lemma get_changes_count:
  assumes "jfield ''success'' (res_json (fst (get_changes p4 req))) = Some (JBool True)"
  shows "\<exists>out. data_field ''rawOutput'' (fst (get_changes p4 req)) = Some (JStr out) \<and>
               data_field ''count'' (fst (get_changes p4 req)) = Some (JNum (int (count_lines out)))"
  using assms
  by (cases rule: executeP4Command_cases [of p4 "changes_command req" no_options])
     (simp_all add: get_changes_def data_field_def jfield_def props_def)

lemma get_users_count:
  assumes "jfield ''success'' (res_json (fst (get_users p4))) = Some (JBool True)"
  shows "\<exists>out. data_field ''rawOutput'' (fst (get_users p4)) = Some (JStr out) \<and>
               data_field ''count'' (fst (get_users p4)) = Some (JNum (int (count_lines out)))"
  using assms
  by (cases rule: executeP4Command_cases [of p4 "''users''" no_options])
     (simp_all add: get_users_def data_field_def jfield_def props_def)

text \<open>
  C6. In every successful answer of a listing (file list, change list, user list), the
  \<open>count\<close> field is the number of non-blank lines of the \<open>rawOutput\<close> text beside
  it.
\<close>

theorem listing_count:
  assumes route: "req_route req \<in> {Files, Changes, Users}"
      and ok: "jfield ''success'' (res_json (fst (serve p4 now req))) = Some (JBool True)"
  shows "\<exists>out. data_field ''rawOutput'' (fst (serve p4 now req)) = Some (JStr out) \<and>
               data_field ''count'' (fst (serve p4 now req)) = Some (JNum (int (nonblank_line_count out)))"
proof -
  from route consider "req_route req = Files" | "req_route req = Changes" | "req_route req = Users"
    by auto
  then show ?thesis
  proof cases
    case 1
    with ok have "serve p4 now req = get_files p4 req"
      using validated_success [of files_chains req "get_files p4 req"] by (simp add: serve_def)
    with ok show ?thesis
      using get_files_count [of p4 req] by (simp add: count_lines_nonblank)
  next
    case 2
    with ok have "serve p4 now req = get_changes p4 req"
      using validated_success [of changes_chains req "get_changes p4 req"] by (simp add: serve_def)
    with ok show ?thesis
      using get_changes_count [of p4 req] by (simp add: count_lines_nonblank)
  next
    case 3
    then have "serve p4 now req = get_users p4"
      by (simp add: serve_def)
    with ok show ?thesis
      using get_users_count [of p4] by (simp add: count_lines_nonblank)
  qed
qed

lemma files_max_5_valid: "validationResult files_chains files_max_5 = []"
  by (simp add: files_max_5_def bare_request_def files_chains_def validationResult_def
      run_chain_def withMessage_def add_validator_def field_chain_def optional_def field_value_def query_of_def
      is_int_string_def unsigned_part_def is_digit_def int_of_string_def parse_digits_def digit_val_def)

lemma files_max_5_served:
  "serve listing_backend timestamp files_max_5 =
     (\<lparr>res_status = 200,
       res_json = JObj [(''success'', JBool True),
                        (''data'', JObj [(''rawOutput'', JStr listing_output),
                                         (''count'', JNum 2),
                                         (''path'', JStr ''//depot/...'')])]\<rparr>,
      [''p4 files -m 5 '' @ dq @ ''//depot/...'' @ dq])"
proof -
  have t: "trim (listing_output @ [nl])
             = listing_output"
    by (simp add: listing_output_def trim_def is_space_def nl_def)
  have n: "count_lines listing_output = 2"
    by (simp add: listing_output_def count_lines_def split_str_def trim_def is_space_def nl_def)
  have q: "req_query files_max_5 = Map.empty(''max'' \<mapsto> ''5'')" "req_route files_max_5 = Files"
    by (simp_all add: files_max_5_def bare_request_def)
  have c: "files_command files_max_5 = ''files -m 5 '' @ dq @ ''//depot/...'' @ dq"
    by (simp add: files_command_def files_maxFiles_def files_depotPath_def or_else_def query_of_def q)
  have p: "files_depotPath files_max_5 = VStr ''//depot/...''"
    by (simp add: files_depotPath_def or_else_def query_of_def q)
  show ?thesis
    by (simp add: serve_def q(2) handleValidationErrors_pass files_max_5_valid get_files_def c
        executeP4Command_def listing_backend_def fullCommand_def t n p props_def)
qed

theorem listing_count_witness:
  "data_field ''rawOutput'' (fst (serve listing_backend timestamp files_max_5))
     = Some (JStr listing_output) \<and>
   data_field ''count'' (fst (serve listing_backend timestamp files_max_5))
     = Some (JNum (int (nonblank_line_count listing_output))) \<and>
   data_field ''count'' (fst (serve listing_backend timestamp files_max_5)) = Some (JNum 2)"
proof -
  have r: "req_route files_max_5 \<in> {Files, Changes, Users}"
    by (simp add: files_max_5_def bare_request_def)
  have ok: "jfield ''success'' (res_json (fst (serve listing_backend timestamp files_max_5))) = Some (JBool True)"
    by (simp add: files_max_5_served jfield_def)
  show ?thesis
    using listing_count [OF r ok]
    by (auto simp: files_max_5_served data_field_def jfield_def)
qed

section \<open>Properties of the defaults\<close>










section \<open>Properties of the sensitive-change scan\<close>




























end
